theory Spec2Isabelle
  imports Main
begin

section \<open>Configuration (mqttclient.go, Config and loadEnvOverrides)\<close>

text \<open>
  The anonymous \<^verbatim>\<open>Broker\<close> struct of \<^verbatim>\<open>Config\<close> has the same three fields as
  \<^verbatim>\<open>types.HostInfo\<close> of the messaging library, so one record serves both. Go's
  \<^verbatim>\<open>int\<close> is taken on a 64-bit platform; the scanner below enforces the range.
  Strings are byte strings, as in Go.
\<close>

record HostInfo =
  Host :: string
  Port :: int
  Protocol :: string

record Config =
  Broker :: HostInfo
  Type :: string
  Topic :: string
  ClientID :: string
  Username :: string
  Password :: string
  Publish :: bool
  Interval :: int
  LogLevel :: string
  EnvPrefix :: string

subsection \<open>The process environment\<close>

text \<open>
  The environment is the list of name/value pairs of the process; \<^verbatim>\<open>os.Getenv\<close>
  returns the empty string for a name that is not set.
\<close>

type_synonym environ = "(string \<times> string) list"

definition Getenv :: "environ \<Rightarrow> string \<Rightarrow> string" where
  "Getenv env k = (case map_of env k of None \<Rightarrow> [] | Some v \<Rightarrow> v)"

subsection \<open>\<^verbatim>\<open>fmt.Sscanf(v, "%d", &x)\<close>\<close>

text \<open>
  The standard library's scanner, for the one format the loader uses. \<^verbatim>\<open>doScanf\<close>
  skips leading space, \<^verbatim>\<open>scanInt\<close> skips space again, accepts one optional sign,
  then the longest run of decimal digits (at least one), and hands the token to
  \<^verbatim>\<open>strconv.ParseInt(tok, 10, 64)\<close>, which rejects a value outside the 64-bit
  range. Only when all of that succeeds is the value stored through the pointer.
  Input after the token is not looked at.
  A newline met while skipping space is an error (\<^verbatim>\<open>Sscanf\<close> does not treat
  newlines as space).
\<close>

datatype scan_error =
  UnexpectedNewline | UnexpectedEOF | ExpectedInteger | SyntaxError | RangeError

definition starts :: "nat list \<Rightarrow> string \<Rightarrow> bool" where
  "starts p s = (map of_char (take (length p) s) = p)"

text \<open>
  \<^verbatim>\<open>isSpace\<close> on the rune at the head of the input, as the number of bytes of that
  rune (0 when the head is no space): the code points of the scanner's table,
  U+0009..U+000D, U+0020, U+0085, U+00A0, U+1680, U+2000..U+200A, U+2028,
  U+2029, U+202F, U+205F, U+3000, in their UTF-8 encodings.
\<close>

definition space_width :: "string \<Rightarrow> nat" where
  "space_width s =
     (case s of [] \<Rightarrow> 0
      | c # _ \<Rightarrow>
        (let a = (of_char c :: nat) in
         if (9 \<le> a \<and> a \<le> 13) \<or> a = 32 then 1
         else if starts [0xC2, 0x85] s \<or> starts [0xC2, 0xA0] s then 2
         else if starts [0xE1, 0x9A, 0x80] s then 3
         else if starts [0xE2, 0x80] s \<and> length s \<ge> 3 \<and>
                 (let x = (of_char (s ! 2) :: nat) in
                    (0x80 \<le> x \<and> x \<le> 0x8A) \<or> x = 0xA8 \<or> x = 0xA9 \<or> x = 0xAF) then 3
         else if starts [0xE2, 0x81, 0x9F] s then 3
         else if starts [0xE3, 0x80, 0x80] s then 3
         else 0))"

function SkipSpace :: "string \<Rightarrow> scan_error + string" where
  "SkipSpace s =
     (if s = [] then Inr []
      else if hd s = CHR 0x0A then Inl UnexpectedNewline
      else if space_width s = 0 then Inr s
      else SkipSpace (drop (space_width s) s))"
  by pat_completeness auto
termination
  by (relation "measure length") auto

declare SkipSpace.simps [simp del]

definition isDigit :: "char \<Rightarrow> bool" where
  "isDigit c = (c \<in> set ''0123456789'')"

definition decimal :: "string \<Rightarrow> int" where
  "decimal ds = foldl (\<lambda>n c. 10 * n + (of_char c - 48)) 0 ds"

text \<open>\<^verbatim>\<open>strconv.ParseInt(tok, 10, 64)\<close> on a token, given as its sign and the rest.\<close>

definition ParseInt :: "bool \<Rightarrow> string \<Rightarrow> scan_error + int" where
  "ParseInt neg ds =
     (if ds = [] \<or> \<not> list_all isDigit ds then Inl SyntaxError
      else let un = decimal ds in
        if \<not> neg \<and> un \<ge> 2 ^ 63 then Inl RangeError
        else if neg \<and> un > 2 ^ 63 then Inl RangeError
        else Inr (if neg then - un else un))"

definition scanInt :: "string \<Rightarrow> scan_error + int" where
  "scanInt s0 =
     (case SkipSpace s0 of Inl e \<Rightarrow> Inl e
      | Inr s \<Rightarrow>
        if s = [] then Inl UnexpectedEOF
        else
          let neg = (hd s = CHR ''-'');
              s1 = (if hd s = CHR ''+'' \<or> hd s = CHR ''-'' then tl s else s);
              ds = takeWhile isDigit s1
          in if s1 = [] then Inl UnexpectedEOF
             else if ds = [] then Inl ExpectedInteger
             else ParseInt neg ds)"

text \<open>
  \<^verbatim>\<open>Sscanf(v, "%d", &x)\<close>: the number of items stored, the error, and the value of
  \<^verbatim>\<open>x\<close> afterwards (its old value when nothing was stored).
\<close>

definition Sscanf_d :: "string \<Rightarrow> int \<Rightarrow> nat \<times> scan_error option \<times> int" where
  "Sscanf_d v x =
     (case SkipSpace v of Inl e \<Rightarrow> (0, Some e, x)
      | Inr s \<Rightarrow>
        (case scanInt s of Inl e \<Rightarrow> (0, Some e, x)
         | Inr i \<Rightarrow> (1, None, i)))"

subsection \<open>loadEnvOverrides\<close>

text \<open>
  One definition for each \<^verbatim>\<open>if\<close> statement of the function, in the order of the
  source; \<^verbatim>\<open>loadEnvOverrides\<close> runs them one after the other on the same \<^verbatim>\<open>cfg\<close>.
  In the two integer statements \<^verbatim>\<open>Sscanf\<close> itself writes through the pointer to the
  field; the assignment under the test stores the field in itself.
\<close>

definition override_BROKER_HOST :: "environ \<Rightarrow> Config \<Rightarrow> Config" where
  "override_BROKER_HOST env cfg =
     (let v = Getenv env (EnvPrefix cfg @ ''BROKER_HOST'') in
      if v \<noteq> [] then cfg\<lparr>Broker := (Broker cfg)\<lparr>Host := v\<rparr>\<rparr> else cfg)"

definition override_BROKER_PORT :: "environ \<Rightarrow> Config \<Rightarrow> Config" where
  "override_BROKER_PORT env cfg =
     (let v = Getenv env (EnvPrefix cfg @ ''BROKER_PORT'') in
      if v \<noteq> [] then
        (case Sscanf_d v (Port (Broker cfg)) of
           (port, err, x) \<Rightarrow>
             let c = cfg\<lparr>Broker := (Broker cfg)\<lparr>Port := x\<rparr>\<rparr> in
             if err = None \<and> port = 1
             then c\<lparr>Broker := (Broker c)\<lparr>Port := Port (Broker c)\<rparr>\<rparr>
             else c)
      else cfg)"

definition override_BROKER_PROTOCOL :: "environ \<Rightarrow> Config \<Rightarrow> Config" where
  "override_BROKER_PROTOCOL env cfg =
     (let v = Getenv env (EnvPrefix cfg @ ''BROKER_PROTOCOL'') in
      if v \<noteq> [] then cfg\<lparr>Broker := (Broker cfg)\<lparr>Protocol := v\<rparr>\<rparr> else cfg)"

definition override_TYPE :: "environ \<Rightarrow> Config \<Rightarrow> Config" where
  "override_TYPE env cfg =
     (let v = Getenv env (EnvPrefix cfg @ ''TYPE'') in
      if v \<noteq> [] then cfg\<lparr>Type := v\<rparr> else cfg)"

definition override_TOPIC :: "environ \<Rightarrow> Config \<Rightarrow> Config" where
  "override_TOPIC env cfg =
     (let v = Getenv env (EnvPrefix cfg @ ''TOPIC'') in
      if v \<noteq> [] then cfg\<lparr>Topic := v\<rparr> else cfg)"

definition override_CLIENT_ID :: "environ \<Rightarrow> Config \<Rightarrow> Config" where
  "override_CLIENT_ID env cfg =
     (let v = Getenv env (EnvPrefix cfg @ ''CLIENT_ID'') in
      if v \<noteq> [] then cfg\<lparr>ClientID := v\<rparr> else cfg)"

definition override_USERNAME :: "environ \<Rightarrow> Config \<Rightarrow> Config" where
  "override_USERNAME env cfg =
     (let v = Getenv env (EnvPrefix cfg @ ''USERNAME'') in
      if v \<noteq> [] then cfg\<lparr>Username := v\<rparr> else cfg)"

definition override_PASSWORD :: "environ \<Rightarrow> Config \<Rightarrow> Config" where
  "override_PASSWORD env cfg =
     (let v = Getenv env (EnvPrefix cfg @ ''PASSWORD'') in
      if v \<noteq> [] then cfg\<lparr>Password := v\<rparr> else cfg)"

definition override_PUBLISH :: "environ \<Rightarrow> Config \<Rightarrow> Config" where
  "override_PUBLISH env cfg =
     (let v = Getenv env (EnvPrefix cfg @ ''PUBLISH'') in
      if v = ''true'' then cfg\<lparr>Publish := True\<rparr> else cfg)"

definition override_PUBLISH_INTERVAL :: "environ \<Rightarrow> Config \<Rightarrow> Config" where
  "override_PUBLISH_INTERVAL env cfg =
     (let v = Getenv env (EnvPrefix cfg @ ''PUBLISH_INTERVAL'') in
      if v \<noteq> [] then
        (case Sscanf_d v (Interval cfg) of
           (interval, err, x) \<Rightarrow>
             let c = cfg\<lparr>Interval := x\<rparr> in
             if err = None \<and> interval = 1
             then c\<lparr>Interval := Interval c\<rparr>
             else c)
      else cfg)"

definition override_LOG_LEVEL :: "environ \<Rightarrow> Config \<Rightarrow> Config" where
  "override_LOG_LEVEL env cfg =
     (let v = Getenv env (EnvPrefix cfg @ ''LOG_LEVEL'') in
      if v \<noteq> [] then cfg\<lparr>LogLevel := v\<rparr> else cfg)"

definition loadEnvOverrides :: "environ \<Rightarrow> Config \<Rightarrow> Config" where
  "loadEnvOverrides env cfg0 =
    (let cfg1 = override_BROKER_HOST env cfg0;
         cfg2 = override_BROKER_PORT env cfg1;
         cfg3 = override_BROKER_PROTOCOL env cfg2;
         cfg4 = override_TYPE env cfg3;
         cfg5 = override_TOPIC env cfg4;
         cfg6 = override_CLIENT_ID env cfg5;
         cfg7 = override_USERNAME env cfg6;
         cfg8 = override_PASSWORD env cfg7;
         cfg9 = override_PUBLISH env cfg8;
         cfg10 = override_PUBLISH_INTERVAL env cfg9;
         cfg11 = override_LOG_LEVEL env cfg10
     in cfg11)"

section \<open>Events and envelopes\<close>

text \<open>
  \<^verbatim>\<open>dtos.Event\<close>, \<^verbatim>\<open>dtos.BaseReading\<close> and \<^verbatim>\<open>types.MessageEnvelope\<close> are declared in
  the EdgeX libraries; the records carry the fields that the client reads or
  writes. The reading's \<^verbatim>\<open>Id\<close>, \<^verbatim>\<open>DeviceName\<close>, \<^verbatim>\<open>ProfileName\<close> and \<^verbatim>\<open>Origin\<close> are
  prefixed, since a record field is a constant of the theory.
\<close>

record SimpleReading =
  Value :: string

record BaseReading =
  ReadingId :: string
  ReadingDeviceName :: string
  ResourceName :: string
  ReadingProfileName :: string
  ReadingOrigin :: int
  ValueType :: string
  SimpleReading :: SimpleReading

record Event =
  EventId :: string
  DeviceName :: string
  ProfileName :: string
  SourceName :: string
  Origin :: int
  Readings :: "BaseReading list"

record MessageEnvelope =
  CorrelationID :: string
  Payload :: string
  ContentType :: string
  ReceivedTopic :: string

record MessageBusConfig =
  BusBroker :: HostInfo
  BusType :: string
  Optional :: "string \<rightharpoonup> string"

datatype chan = Messages_chan | MessageErrs_chan

record TopicChannel =
  SubscribedTopic :: string
  Messages :: chan

section \<open>Errors, log lines, goroutines\<close>

text \<open>
  One constructor for each \<^verbatim>\<open>fmt.Errorf\<close> of the package, carrying the text of the
  wrapped error. \<^verbatim>\<open>error_kind\<close> is the taxonomy of the specification over them.
\<close>

datatype error =
    ReadConfigFailed string
  | CreateClientFailed string
  | ConnectFailed string
  | SubscribeFailed string
  | SerializeFailed string
  | PublishFailed string

datatype error_kind = ConfigError | BusError | SerializeError

fun kind_of :: "error \<Rightarrow> error_kind" where
  "kind_of (ReadConfigFailed _) = ConfigError"
| "kind_of (CreateClientFailed _) = BusError"
| "kind_of (ConnectFailed _) = BusError"
| "kind_of (SubscribeFailed _) = BusError"
| "kind_of (SerializeFailed _) = SerializeError"
| "kind_of (PublishFailed _) = BusError"

datatype panic = CloseOfClosedChannel

datatype level = INFO | ERROR

text \<open>One constructor for each message the package formats, with its arguments.\<close>

datatype message =
    Connected
  | Subscribed string
  | ReceiveError string
  | Received string string
  | InvalidContentType string
  | DecodeFailed string
  | PublishedTestEvent string string
  | PublishedEvent string string
  | DisconnectFailed string
  | Stopped

datatype goroutine = HandleMessages | StartPublishing | HandleSignals

section \<open>The collaborators and the client\<close>

text \<open>
  What the package calls and does not define: the JSON codec, the UUID
  generator and the clock (the n-th call's result), the decoder of the configuration file (which
  overlays a file on a \<^verbatim>\<open>Config\<close>), and the message bus with its own state \<open>'b\<close>.
  An error is the left injection, or \<open>Some\<close> where there is no other result.
\<close>

record 'b externals =
  json_Marshal :: "Event \<Rightarrow> string + string"
  json_Unmarshal :: "string \<Rightarrow> string + Event"
  uuid_New :: "nat \<Rightarrow> string"
  time_Now :: "nat \<Rightarrow> int"
  Format_RFC3339 :: "int \<Rightarrow> string"
  toml_DecodeFile :: "string \<Rightarrow> Config \<Rightarrow> string + Config"
  NewMessageClient :: "MessageBusConfig \<Rightarrow> string + 'b"
  bus_Connect :: "'b \<Rightarrow> string option \<times> 'b"
  bus_Subscribe :: "TopicChannel list \<Rightarrow> chan \<Rightarrow> 'b \<Rightarrow> string option \<times> 'b"
  bus_Publish :: "MessageEnvelope \<Rightarrow> string \<Rightarrow> 'b \<Rightarrow> string option \<times> 'b"
  bus_Disconnect :: "'b \<Rightarrow> string option \<times> 'b"

text \<open>
  The process around the client: how many UUIDs and clock readings have been
  taken, the goroutines started, and the state \<open>'u\<close> that the user's callback
  acts on.
\<close>

record 'u Runtime =
  uuids_drawn :: nat
  clock_reads :: nat
  goroutines :: "goroutine list"
  user :: 'u

text \<open>
  \<^verbatim>\<open>MQTTClient\<close>. The logger is the list of calls made on it, the stop channel is
  whether it has been closed, the wait group is its counter. The two inbound
  channels are unbuffered and hold nothing between a send and its receive.
\<close>

record ('b, 'u) MQTTClient =
  config :: Config
  logger :: "(level \<times> message) list"
  messageBus :: 'b
  stopCh_closed :: bool
  wg :: int
  handler :: "(string \<Rightarrow> Event \<Rightarrow> 'u \<Rightarrow> 'u) option"
  runtime :: "'u Runtime"

definition uuid_New_String :: "'b externals \<Rightarrow> 'u Runtime \<Rightarrow> string \<times> 'u Runtime" where
  "uuid_New_String ext rt = (uuid_New ext (uuids_drawn rt), rt\<lparr>uuids_drawn := uuids_drawn rt + 1\<rparr>)"

definition Now :: "'b externals \<Rightarrow> 'u Runtime \<Rightarrow> int \<times> 'u Runtime" where
  "Now ext rt = (time_Now ext (clock_reads rt), rt\<lparr>clock_reads := clock_reads rt + 1\<rparr>)"

definition Info :: "message \<Rightarrow> ('b, 'u) MQTTClient \<Rightarrow> ('b, 'u) MQTTClient" where
  "Info m c = c\<lparr>logger := logger c @ [(INFO, m)]\<rparr>"

definition Error :: "message \<Rightarrow> ('b, 'u) MQTTClient \<Rightarrow> ('b, 'u) MQTTClient" where
  "Error m c = c\<lparr>logger := logger c @ [(ERROR, m)]\<rparr>"

definition go :: "goroutine \<Rightarrow> ('b, 'u) MQTTClient \<Rightarrow> ('b, 'u) MQTTClient" where
  "go g c = c\<lparr>runtime := (runtime c)\<lparr>goroutines := goroutines (runtime c) @ [g]\<rparr>\<rparr>"

subsection \<open>NewMQTTClient\<close>

definition default_Config :: "string \<Rightarrow> Config" where
  "default_Config uuid =
     \<lparr>Broker = \<lparr>Host = ''localhost'', Port = 1883, Protocol = ''tcp''\<rparr>,
      Type = ''mqtt'',
      Topic = ''edgex/events/#'',
      ClientID = ''EdgeXClient-'' @ uuid,
      Username = [],
      Password = [],
      Publish = False,
      Interval = 10,
      LogLevel = ''INFO'',
      EnvPrefix = ''EDGEX_''\<rparr>"

definition busConfig_of :: "Config \<Rightarrow> MessageBusConfig" where
  "busConfig_of cfg =
     (let b0 = \<lparr>BusBroker = \<lparr>Host = Host (Broker cfg), Port = Port (Broker cfg),
                               Protocol = Protocol (Broker cfg)\<rparr>,
                 BusType = Type cfg,
                 Optional = [''ClientId'' \<mapsto> ClientID cfg]\<rparr>;
          b1 = (if Username cfg \<noteq> []
                then b0\<lparr>Optional := (Optional b0)(''Username'' \<mapsto> Username cfg)\<rparr>
                else b0);
          b2 = (if Password cfg \<noteq> []
                then b1\<lparr>Optional := (Optional b1)(''Password'' \<mapsto> Password cfg)\<rparr>
                else b1)
      in b2)"

definition NewMQTTClient ::
  "'b externals \<Rightarrow> environ \<Rightarrow> 'u Runtime \<Rightarrow> string \<Rightarrow> (string \<Rightarrow> Event \<Rightarrow> 'u \<Rightarrow> 'u) option
     \<Rightarrow> error + ('b, 'u) MQTTClient" where
  "NewMQTTClient ext env rt configPath h =
     (case uuid_New_String ext rt of
        (uuid, rt1) \<Rightarrow>
          (case (if configPath \<noteq> []
                 then (case toml_DecodeFile ext configPath (default_Config uuid) of
                         Inl err \<Rightarrow> Inl (ReadConfigFailed err)
                       | Inr cfg \<Rightarrow> Inr cfg)
                 else Inr (default_Config uuid)) of
             Inl e \<Rightarrow> Inl e
           | Inr cfg0 \<Rightarrow>
               let cfg = loadEnvOverrides env cfg0 in
               (case NewMessageClient ext (busConfig_of cfg) of
                  Inl err \<Rightarrow> Inl (CreateClientFailed err)
                | Inr bus \<Rightarrow>
                    Inr \<lparr>config = cfg, logger = [], messageBus = bus,
                         stopCh_closed = False, wg = 0, handler = h,
                         runtime = rt1\<rparr>)))"

subsection \<open>Start\<close>

definition Start :: "'b externals \<Rightarrow> ('b, 'u) MQTTClient \<Rightarrow> error option \<times> ('b, 'u) MQTTClient" where
  "Start ext c =
     (case bus_Connect ext (messageBus c) of
        (Some err, b) \<Rightarrow> (Some (ConnectFailed err), c\<lparr>messageBus := b\<rparr>)
      | (None, b) \<Rightarrow>
          let c1 = Info Connected (c\<lparr>messageBus := b\<rparr>);
              topics = [\<lparr>SubscribedTopic = Topic (config c1), Messages = Messages_chan\<rparr>]
          in (case bus_Subscribe ext topics MessageErrs_chan (messageBus c1) of
                (Some err, b') \<Rightarrow> (Some (SubscribeFailed err), c1\<lparr>messageBus := b'\<rparr>)
              | (None, b') \<Rightarrow>
                  let c2 = Info (Subscribed (Topic (config c1))) (c1\<lparr>messageBus := b'\<rparr>);
                      c3 = go HandleMessages (c2\<lparr>wg := wg c2 + 1\<rparr>);
                      c4 = (if Publish (config c3)
                            then go StartPublishing (c3\<lparr>wg := wg c3 + 1\<rparr>)
                            else c3);
                      c5 = go HandleSignals c4
                  in (None, c5)))"

subsection \<open>handleMessages\<close>

text \<open>
  The loop blocks in a \<^verbatim>\<open>select\<close> over the error channel, the envelope channel
  and the stop channel. A run of it is the list of the cases the \<^verbatim>\<open>select\<close>
  takes, each with what was received; when the list is used up the loop is
  blocked again. \<^verbatim>\<open>dispatch\<close> is the arm for an envelope.
\<close>

datatype select_case =
    FromMessageErrs string
  | FromMessages MessageEnvelope
  | FromStopCh

definition dispatch :: "'b externals \<Rightarrow> MessageEnvelope \<Rightarrow> ('b, 'u) MQTTClient \<Rightarrow> ('b, 'u) MQTTClient" where
  "dispatch ext msg c =
     (let c1 = Info (Received (ReceivedTopic msg) (CorrelationID msg)) c in
      if ContentType msg \<noteq> ''application/json''
      then Error (InvalidContentType (ContentType msg)) c1
      else (case json_Unmarshal ext (Payload msg) of
              Inl err \<Rightarrow> Error (DecodeFailed err) c1
            | Inr event \<Rightarrow>
                (case handler c1 of
                   None \<Rightarrow> c1
                 | Some h \<Rightarrow>
                     c1\<lparr>runtime := (runtime c1)\<lparr>user := h (ReceivedTopic msg) event (user (runtime c1))\<rparr>\<rparr>)))"

fun handleMessages :: "'b externals \<Rightarrow> select_case list \<Rightarrow> ('b, 'u) MQTTClient \<Rightarrow> ('b, 'u) MQTTClient" where
  "handleMessages ext [] c = c"
| "handleMessages ext (FromMessageErrs err # rest) c =
     handleMessages ext rest (Error (ReceiveError err) c)"
| "handleMessages ext (FromMessages msg # rest) c =
     handleMessages ext rest (dispatch ext msg c)"
| "handleMessages ext (FromStopCh # rest) c = c\<lparr>wg := wg c - 1\<rparr>"

subsection \<open>PublishTestEvent and PublishEvent\<close>

definition PublishTestEvent ::
  "'b externals \<Rightarrow> string \<Rightarrow> ('b, 'u) MQTTClient \<Rightarrow> error option \<times> ('b, 'u) MQTTClient" where
  "PublishTestEvent ext topic c =
     (case uuid_New_String ext (runtime c) of (id1, rt1) \<Rightarrow>
      case Now ext rt1 of (t1, rt2) \<Rightarrow>
      case uuid_New_String ext rt2 of (id2, rt3) \<Rightarrow>
      case Now ext rt3 of (t2, rt4) \<Rightarrow>
      case Now ext rt4 of (t3, rt5) \<Rightarrow>
      let event =
            \<lparr>EventId = id1, DeviceName = ''TestDevice'', ProfileName = ''TestProfile'',
             SourceName = ''TestSource'', Origin = t1,
             Readings =
               [\<lparr>ReadingId = id2, ReadingDeviceName = ''TestDevice'',
                 ResourceName = ''TestResource'', ReadingProfileName = ''TestProfile'',
                 ReadingOrigin = t2, ValueType = ''String'',
                 SimpleReading = \<lparr>Value = ''Test value at '' @ Format_RFC3339 ext t3\<rparr>\<rparr>]\<rparr>
      in (case json_Marshal ext event of
            Inl err \<Rightarrow> (Some (SerializeFailed err), c\<lparr>runtime := rt5\<rparr>)
          | Inr payload \<Rightarrow>
              (case uuid_New_String ext rt5 of (cid, rt6) \<Rightarrow>
               let msgEnvelope = \<lparr>CorrelationID = cid, Payload = payload,
                                  ContentType = ''application/json'', ReceivedTopic = []\<rparr>
               in (case bus_Publish ext msgEnvelope topic (messageBus c) of
                     (Some err, b) \<Rightarrow>
                       (Some (PublishFailed err), c\<lparr>messageBus := b, runtime := rt6\<rparr>)
                   | (None, b) \<Rightarrow>
                       (None, Info (PublishedTestEvent topic (EventId event))
                                (c\<lparr>messageBus := b, runtime := rt6\<rparr>))))))"

definition PublishEvent ::
  "'b externals \<Rightarrow> Event \<Rightarrow> string \<Rightarrow> ('b, 'u) MQTTClient \<Rightarrow> error option \<times> ('b, 'u) MQTTClient" where
  "PublishEvent ext event topic c =
     (case json_Marshal ext event of
        Inl err \<Rightarrow> (Some (SerializeFailed err), c)
      | Inr payload \<Rightarrow>
          (case uuid_New_String ext (runtime c) of (cid, rt1) \<Rightarrow>
           let msgEnvelope = \<lparr>CorrelationID = cid, Payload = payload,
                              ContentType = ''application/json'', ReceivedTopic = []\<rparr>
           in (case bus_Publish ext msgEnvelope topic (messageBus c) of
                 (Some err, b) \<Rightarrow>
                   (Some (PublishFailed err), c\<lparr>messageBus := b, runtime := rt1\<rparr>)
               | (None, b) \<Rightarrow>
                   (None, Info (PublishedEvent topic (EventId event))
                            (c\<lparr>messageBus := b, runtime := rt1\<rparr>)))))"

subsection \<open>Stop\<close>

text \<open>
  \<^verbatim>\<open>close\<close> of a channel that is already closed panics, and the panic leaves
  \<^verbatim>\<open>Stop\<close> before anything else runs. \<^verbatim>\<open>wg.Wait\<close> returns when the loops, which
  select on the closed stop channel, have each called \<^verbatim>\<open>wg.Done\<close>: the counter is
  zero afterwards.
\<close>

definition Stop :: "'b externals \<Rightarrow> ('b, 'u) MQTTClient \<Rightarrow> panic + ('b, 'u) MQTTClient" where
  "Stop ext c =
     (if stopCh_closed c then Inl CloseOfClosedChannel
      else
        let c1 = c\<lparr>stopCh_closed := True\<rparr> in
        (case bus_Disconnect ext (messageBus c1) of
           (err, b) \<Rightarrow>
             let c2 = (case err of
                         Some e \<Rightarrow> Error (DisconnectFailed e) (c1\<lparr>messageBus := b\<rparr>)
                       | None \<Rightarrow> c1\<lparr>messageBus := b\<rparr>);
                 c3 = c2\<lparr>wg := 0\<rparr>
             in Inr (Info Stopped c3)))"

section \<open>The overlay as the specification words it\<close>

text \<open>
  The specification describes the loader as pure overlays, option by option:
  a string option takes the variable's value unless that is empty; an integer
  option takes what the scanner stores; \<^verbatim>\<open>publish\<close> is switched on by the value
  \<^verbatim>\<open>true\<close>. \<^verbatim>\<open>withEnv\<close> is that description, to be compared with the function above.
\<close>

definition pick_string :: "string \<Rightarrow> string \<Rightarrow> string" where
  "pick_string v prior = (if v = [] then prior else v)"

definition pick_int :: "string \<Rightarrow> int \<Rightarrow> int" where
  "pick_int v prior = (if v = [] then prior else snd (snd (Sscanf_d v prior)))"

definition withEnv :: "environ \<Rightarrow> Config \<Rightarrow> Config" where
  "withEnv env cfg =
     \<lparr>Broker =
        \<lparr>Host = pick_string (Getenv env (EnvPrefix cfg @ ''BROKER_HOST'')) (Host (Broker cfg)),
         Port = pick_int (Getenv env (EnvPrefix cfg @ ''BROKER_PORT'')) (Port (Broker cfg)),
         Protocol = pick_string (Getenv env (EnvPrefix cfg @ ''BROKER_PROTOCOL'')) (Protocol (Broker cfg))\<rparr>,
      Type = pick_string (Getenv env (EnvPrefix cfg @ ''TYPE'')) (Type cfg),
      Topic = pick_string (Getenv env (EnvPrefix cfg @ ''TOPIC'')) (Topic cfg),
      ClientID = pick_string (Getenv env (EnvPrefix cfg @ ''CLIENT_ID'')) (ClientID cfg),
      Username = pick_string (Getenv env (EnvPrefix cfg @ ''USERNAME'')) (Username cfg),
      Password = pick_string (Getenv env (EnvPrefix cfg @ ''PASSWORD'')) (Password cfg),
      Publish = (Publish cfg \<or> Getenv env (EnvPrefix cfg @ ''PUBLISH'') = ''true''),
      Interval = pick_int (Getenv env (EnvPrefix cfg @ ''PUBLISH_INTERVAL'')) (Interval cfg),
      LogLevel = pick_string (Getenv env (EnvPrefix cfg @ ''LOG_LEVEL'')) (LogLevel cfg),
      EnvPrefix = EnvPrefix cfg\<rparr>"


definition recognized :: "string list" where
  "recognized =
     [''BROKER_HOST'', ''BROKER_PORT'', ''BROKER_PROTOCOL'', ''TYPE'', ''TOPIC'',
      ''CLIENT_ID'', ''USERNAME'', ''PASSWORD'', ''PUBLISH'', ''PUBLISH_INTERVAL'',
      ''LOG_LEVEL'']"

text \<open>
  A well-formed integer, as a reader of the specification takes the words: an
  optional sign and then decimal digits, nothing else.
\<close>

definition well_formed_integer :: "string \<Rightarrow> bool" where
  "well_formed_integer v =
     (let ds = (if v \<noteq> [] \<and> (hd v = CHR ''+'' \<or> hd v = CHR ''-'') then tl v else v)
      in ds \<noteq> [] \<and> list_all isDigit ds)"

section \<open>A test double\<close>

text \<open>
  An in-memory bus that records the calls it receives and accepts them all, a
  codec that carries the event's id, a counter-based UUID generator and clock,
  and a decoder that knows the one file of the README. The callback appends
  what it is given to a list.
\<close>

datatype bus_call =
    Connect_call
  | Subscribe_call "TopicChannel list" chan
  | Publish_call MessageEnvelope string
  | Disconnect_call

definition readme_Config :: "Config \<Rightarrow> Config" where
  "readme_Config cfg =
     cfg\<lparr>Broker := \<lparr>Host = ''localhost'', Port = 1883, Protocol = ''tcp''\<rparr>,
         Type := ''mqtt'', Topic := ''edgex/events/#'', ClientID := ''EdgeXClient-Test'',
         Publish := True, Interval := 10, LogLevel := ''INFO''\<rparr>"

definition id_Event :: "string \<Rightarrow> Event" where
  "id_Event s =
     \<lparr>EventId = s, DeviceName = ''TestDevice'', ProfileName = ''TestProfile'',
      SourceName = ''TestSource'', Origin = 0, Readings = []\<rparr>"

definition fake_ext :: "bus_call list externals" where
  "fake_ext =
     \<lparr>json_Marshal = (\<lambda>e. Inr (EventId e)),
      json_Unmarshal = (\<lambda>s. if s = [] then Inl ''unexpected end of JSON input''
                             else Inr (id_Event s)),
      uuid_New = (\<lambda>n. replicate (Suc n) (CHR ''u'')),
      time_Now = (\<lambda>n. 1698765432109876543 + int n),
      Format_RFC3339 = (\<lambda>t. ''2023-10-31T15:17:12Z''),
      toml_DecodeFile = (\<lambda>path cfg. if path = ''config.toml'' then Inr (readme_Config cfg)
                                      else Inl ''no such file or directory''),
      NewMessageClient = (\<lambda>bc. if BusType bc = ''mqtt'' then Inr []
                                else Inl ''unsupported message bus type''),
      bus_Connect = (\<lambda>b. (None, b @ [Connect_call])),
      bus_Subscribe = (\<lambda>topics errs b. (None, b @ [Subscribe_call topics errs])),
      bus_Publish = (\<lambda>msg topic b. (None, b @ [Publish_call msg topic])),
      bus_Disconnect = (\<lambda>b. (None, b @ [Disconnect_call]))\<rparr>"

definition refusing_ext :: "bus_call list externals" where
  "refusing_ext = fake_ext\<lparr>bus_Connect := (\<lambda>b. (Some ''connection refused'', b @ [Connect_call]))\<rparr>"

definition unsubscribable_ext :: "bus_call list externals" where
  "unsubscribable_ext =
     fake_ext\<lparr>bus_Subscribe := (\<lambda>topics errs b. (Some ''not authorized'', b @ [Subscribe_call topics errs]))\<rparr>"

definition record_call :: "string \<Rightarrow> Event \<Rightarrow> (string \<times> Event) list \<Rightarrow> (string \<times> Event) list" where
  "record_call topic event calls = calls @ [(topic, event)]"

definition fresh_Runtime :: "(string \<times> Event) list Runtime" where
  "fresh_Runtime = \<lparr>uuids_drawn = 0, clock_reads = 0, goroutines = [], user = []\<rparr>"

definition created_client :: "(bus_call list, (string \<times> Event) list) MQTTClient" where
  "created_client =
     \<lparr>config = default_Config ''u'', logger = [], messageBus = [], stopCh_closed = False,
      wg = 0, handler = Some record_call,
      runtime = \<lparr>uuids_drawn = 1, clock_reads = 0, goroutines = [], user = []\<rparr>\<rparr>"

definition started_client :: "(bus_call list, (string \<times> Event) list) MQTTClient" where
  "started_client = snd (Start fake_ext created_client)"



section \<open>The loader, statement by statement\<close>

lemma override_BROKER_HOST_eq:
  "override_BROKER_HOST env cfg =
     cfg\<lparr>Broker := (Broker cfg)\<lparr>Host := pick_string (Getenv env (EnvPrefix cfg @ ''BROKER_HOST'')) (Host (Broker cfg))\<rparr>\<rparr>"
  by (simp add: override_BROKER_HOST_def pick_string_def Let_def)

lemma override_BROKER_PROTOCOL_eq:
  "override_BROKER_PROTOCOL env cfg =
     cfg\<lparr>Broker := (Broker cfg)\<lparr>Protocol := pick_string (Getenv env (EnvPrefix cfg @ ''BROKER_PROTOCOL'')) (Protocol (Broker cfg))\<rparr>\<rparr>"
  by (simp add: override_BROKER_PROTOCOL_def pick_string_def Let_def)

lemma override_TYPE_eq:
  "override_TYPE env cfg =
     cfg\<lparr>Type := pick_string (Getenv env (EnvPrefix cfg @ ''TYPE'')) (Type cfg)\<rparr>"
  by (simp add: override_TYPE_def pick_string_def Let_def)

lemma override_TOPIC_eq:
  "override_TOPIC env cfg =
     cfg\<lparr>Topic := pick_string (Getenv env (EnvPrefix cfg @ ''TOPIC'')) (Topic cfg)\<rparr>"
  by (simp add: override_TOPIC_def pick_string_def Let_def)

lemma override_CLIENT_ID_eq:
  "override_CLIENT_ID env cfg =
     cfg\<lparr>ClientID := pick_string (Getenv env (EnvPrefix cfg @ ''CLIENT_ID'')) (ClientID cfg)\<rparr>"
  by (simp add: override_CLIENT_ID_def pick_string_def Let_def)

lemma override_USERNAME_eq:
  "override_USERNAME env cfg =
     cfg\<lparr>Username := pick_string (Getenv env (EnvPrefix cfg @ ''USERNAME'')) (Username cfg)\<rparr>"
  by (simp add: override_USERNAME_def pick_string_def Let_def)

lemma override_PASSWORD_eq:
  "override_PASSWORD env cfg =
     cfg\<lparr>Password := pick_string (Getenv env (EnvPrefix cfg @ ''PASSWORD'')) (Password cfg)\<rparr>"
  by (simp add: override_PASSWORD_def pick_string_def Let_def)

lemma override_LOG_LEVEL_eq:
  "override_LOG_LEVEL env cfg =
     cfg\<lparr>LogLevel := pick_string (Getenv env (EnvPrefix cfg @ ''LOG_LEVEL'')) (LogLevel cfg)\<rparr>"
  by (simp add: override_LOG_LEVEL_def pick_string_def Let_def)

lemma override_BROKER_PORT_eq:
  "override_BROKER_PORT env cfg =
     cfg\<lparr>Broker := (Broker cfg)\<lparr>Port := pick_int (Getenv env (EnvPrefix cfg @ ''BROKER_PORT'')) (Port (Broker cfg))\<rparr>\<rparr>"
  by (simp add: override_BROKER_PORT_def pick_int_def Let_def split: prod.splits)

lemma override_PUBLISH_INTERVAL_eq:
  "override_PUBLISH_INTERVAL env cfg =
     cfg\<lparr>Interval := pick_int (Getenv env (EnvPrefix cfg @ ''PUBLISH_INTERVAL'')) (Interval cfg)\<rparr>"
  by (simp add: override_PUBLISH_INTERVAL_def pick_int_def Let_def split: prod.splits)

lemma override_PUBLISH_eq:
  "override_PUBLISH env cfg =
     cfg\<lparr>Publish := (Publish cfg \<or> Getenv env (EnvPrefix cfg @ ''PUBLISH'') = ''true'')\<rparr>"
  by (simp add: override_PUBLISH_def Let_def)

lemmas override_eqs =
  override_BROKER_HOST_eq override_BROKER_PORT_eq override_BROKER_PROTOCOL_eq
  override_TYPE_eq override_TOPIC_eq override_CLIENT_ID_eq override_USERNAME_eq
  override_PASSWORD_eq override_PUBLISH_eq override_PUBLISH_INTERVAL_eq
  override_LOG_LEVEL_eq

lemma loadEnvOverrides_withEnv: "loadEnvOverrides env cfg = withEnv env cfg"
  by (simp add: loadEnvOverrides_def withEnv_def Let_def override_eqs)

section \<open>Properties\<close>

text \<open>
  C1. \<^verbatim>\<open>Stop\<close> is meant to be idempotent: a second call is a no-op that returns
  safely. The function has no guard: on a client that was started and stopped
  once, the second call closes the closed stop channel and panics. The first call
  closes the channel and the bus receives one \<^verbatim>\<open>Disconnect\<close>; the second call does not
  return.
\<close>

theorem Stop_twice_panics:
  "(case Stop fake_ext started_client of
      Inl p \<Rightarrow> False
    | Inr c \<Rightarrow>
        stopCh_closed c
        \<and> length (filter (\<lambda>x. x = Disconnect_call) (messageBus c)) = 1
        \<and> Stop fake_ext c = Inl CloseOfClosedChannel)"
  by (simp add: Stop_def started_client_def Start_def fake_ext_def created_client_def Info_def
        go_def Let_def)

text \<open>
  C2. Content type: an envelope whose content type is not
  \<^verbatim>\<open>application/json\<close> is logged as an error and dropped. The client after the
  envelope is the client before it with two log lines added (the info line for the
  receipt, the error line for the content type); the user's state is untouched,
  whatever the callback and the decoder are, and the loop goes on with the next
  case.
\<close>

theorem wrong_content_type_dropped:
  assumes "ContentType msg \<noteq> ''application/json''"
  shows "dispatch ext msg c =
           c\<lparr>logger := logger c @ [(INFO, Received (ReceivedTopic msg) (CorrelationID msg)),
                                   (ERROR, InvalidContentType (ContentType msg))]\<rparr>
       \<and> user (runtime (dispatch ext msg c)) = user (runtime c)
       \<and> dispatch (ext\<lparr>json_Unmarshal := decode\<rparr>) msg (c\<lparr>handler := h\<rparr>) =
           (dispatch ext msg c)\<lparr>handler := h\<rparr>
       \<and> handleMessages ext (FromMessages msg # rest) c =
           handleMessages ext rest
             (c\<lparr>logger := logger c @ [(INFO, Received (ReceivedTopic msg) (CorrelationID msg)),
                                     (ERROR, InvalidContentType (ContentType msg))]\<rparr>)"
  using assms by (simp add: dispatch_def Info_def Error_def)

text \<open>
  C2 at the envelope of the specification's fourth scenario.
\<close>

theorem wrong_content_type_dropped_witness:
  "user (runtime (dispatch fake_ext
      \<lparr>CorrelationID = ''c-1'', Payload = ''E-1'', ContentType = ''text/plain'',
       ReceivedTopic = ''edgex/events/ns/dev''\<rparr> started_client)) = []
   \<and> logger (dispatch fake_ext
      \<lparr>CorrelationID = ''c-1'', Payload = ''E-1'', ContentType = ''text/plain'',
       ReceivedTopic = ''edgex/events/ns/dev''\<rparr> started_client) =
     logger started_client @
       [(INFO, Received ''edgex/events/ns/dev'' ''c-1''), (ERROR, InvalidContentType ''text/plain'')]"
proof -
  let ?msg = "\<lparr>CorrelationID = ''c-1'', Payload = ''E-1'', ContentType = ''text/plain'',
       ReceivedTopic = ''edgex/events/ns/dev''\<rparr>"
  have h: "ContentType ?msg \<noteq> ''application/json''" by simp
  have u: "user (runtime started_client) = []"
    by (simp add: started_client_def Start_def fake_ext_def created_client_def Info_def go_def
          Let_def)
  show ?thesis
    using wrong_content_type_dropped [OF h, of fake_ext started_client] u by simp
qed





text \<open>
  C5, as stated, fails: \<^verbatim>\<open>12abc\<close> is not a well-formed integer, yet the scanner
  stores its leading 12 in the port.
\<close>

theorem malformed_integer_counterexample:
  "\<not> well_formed_integer ''12abc''
   \<and> Getenv [(''EDGEX_BROKER_PORT'', ''12abc'')] ''EDGEX_BROKER_PORT'' = ''12abc''
   \<and> Port (Broker (default_Config ''u'')) = 1883
   \<and> Port (Broker (loadEnvOverrides [(''EDGEX_BROKER_PORT'', ''12abc'')] (default_Config ''u''))) = 12"
  by code_simp

text \<open>
  C5, amended: a non-empty value of \<^verbatim>\<open>BROKER_PORT\<close> or \<^verbatim>\<open>PUBLISH_INTERVAL\<close> on
  which \<^verbatim>\<open>Sscanf\<close> reports an error leaves the port, respectively the interval, as it
  was.
\<close>

theorem scan_failure_retains:
  "(Getenv env (EnvPrefix cfg @ ''BROKER_PORT'') = v \<longrightarrow> v \<noteq> [] \<longrightarrow>
      fst (snd (Sscanf_d v (Port (Broker cfg)))) \<noteq> None \<longrightarrow>
      Port (Broker (loadEnvOverrides env cfg)) = Port (Broker cfg))
   \<and> (Getenv env (EnvPrefix cfg @ ''PUBLISH_INTERVAL'') = w \<longrightarrow> w \<noteq> [] \<longrightarrow>
      fst (snd (Sscanf_d w (Interval cfg))) \<noteq> None \<longrightarrow>
      Interval (loadEnvOverrides env cfg) = Interval cfg)"
  by (auto simp: loadEnvOverrides_withEnv withEnv_def pick_int_def Sscanf_d_def
           split: sum.splits)

text \<open>
  C5, amended, at \<^verbatim>\<open>abc\<close> for the port and a value beyond 64 bits for the
  interval.
\<close>

theorem scan_failure_retains_witness:
  "Port (Broker (loadEnvOverrides
      [(''EDGEX_BROKER_PORT'', ''abc''), (''EDGEX_PUBLISH_INTERVAL'', ''99999999999999999999'')]
      (default_Config ''u''))) = 1883
   \<and> Interval (loadEnvOverrides
      [(''EDGEX_BROKER_PORT'', ''abc''), (''EDGEX_PUBLISH_INTERVAL'', ''99999999999999999999'')]
      (default_Config ''u'')) = 10"
proof -
  let ?env = "[(''EDGEX_BROKER_PORT'', ''abc''), (''EDGEX_PUBLISH_INTERVAL'', ''99999999999999999999'')]"
  let ?cfg = "default_Config ''u''"
  have p: "Getenv ?env (EnvPrefix ?cfg @ ''BROKER_PORT'') = ''abc''"
    and i: "Getenv ?env (EnvPrefix ?cfg @ ''PUBLISH_INTERVAL'') = ''99999999999999999999''"
    by (simp_all add: Getenv_def default_Config_def)
  have fp: "fst (snd (Sscanf_d ''abc'' (Port (Broker ?cfg)))) \<noteq> None"
    and fi: "fst (snd (Sscanf_d ''99999999999999999999'' (Interval ?cfg))) \<noteq> None"
    by code_simp+
  show ?thesis
    using scan_failure_retains [of ?env ?cfg "''abc''" "''99999999999999999999''"] p i fp fi
    by (simp add: default_Config_def)
qed

text \<open>
  C6. Defaults only: with an empty path and none of the recognized variables
  set, the configuration of the constructed client is \<^verbatim>\<open>localhost\<close>, 1883, \<^verbatim>\<open>tcp\<close>,
  \<^verbatim>\<open>mqtt\<close>, \<^verbatim>\<open>edgex/events/#\<close>, publish off, interval 10, level \<^verbatim>\<open>INFO\<close>.
\<close>

theorem defaults_only_construction:
  assumes "\<forall>k \<in> set recognized. Getenv env (''EDGEX_'' @ k) = []"
    and "NewMQTTClient ext env rt [] h = Inr c"
  shows "Host (Broker (config c)) = ''localhost''
       \<and> Port (Broker (config c)) = 1883
       \<and> Protocol (Broker (config c)) = ''tcp''
       \<and> Type (config c) = ''mqtt''
       \<and> Topic (config c) = ''edgex/events/#''
       \<and> \<not> Publish (config c)
       \<and> Interval (config c) = 10
       \<and> LogLevel (config c) = ''INFO''"
proof -
  have "config c = withEnv env (default_Config (uuid_New ext (uuids_drawn rt)))"
    using assms(2)
    by (auto simp: NewMQTTClient_def uuid_New_String_def Let_def loadEnvOverrides_withEnv
             split: sum.splits)
  then show ?thesis
    using assms(1)
    by (simp add: withEnv_def default_Config_def recognized_def pick_string_def pick_int_def)
qed

text \<open>
  C6 with the test double and an empty environment.
\<close>

theorem defaults_only_construction_witness:
  "NewMQTTClient fake_ext [] fresh_Runtime [] (Some record_call) = Inr created_client
   \<and> Host (Broker (config created_client)) = ''localhost''
   \<and> Port (Broker (config created_client)) = 1883
   \<and> Topic (config created_client) = ''edgex/events/#''
   \<and> \<not> Publish (config created_client)"
proof -
  have e: "\<forall>k \<in> set recognized. Getenv [] (''EDGEX_'' @ k) = []"
    by (simp add: Getenv_def)
  have h: "NewMQTTClient fake_ext [] fresh_Runtime [] (Some record_call) = Inr created_client"
    by (simp add: NewMQTTClient_def uuid_New_String_def fake_ext_def fresh_Runtime_def
          created_client_def loadEnvOverrides_withEnv withEnv_def pick_string_def pick_int_def
          Getenv_def busConfig_of_def default_Config_def Let_def)
  show ?thesis
    using defaults_only_construction [OF e h] h by simp
qed

text \<open>
  C7, as stated, fails: with \<^verbatim>\<open>publish = true\<close> in the file and \<^verbatim>\<open>PUBLISH\<close> set to
  \<^verbatim>\<open>false\<close>, the result has publish on.
\<close>

theorem PUBLISH_override_counterexample:
  "Getenv [(''EDGEX_PUBLISH'', ''false'')] ''EDGEX_PUBLISH'' = ''false''
   \<and> ''false'' \<noteq> ''true''
   \<and> Publish (loadEnvOverrides [(''EDGEX_PUBLISH'', ''false'')] (readme_Config (default_Config ''u'')))"
  by (simp add: loadEnvOverrides_withEnv withEnv_def readme_Config_def Getenv_def)

text \<open>
  C7, amended: the loader switches \<^verbatim>\<open>publish\<close> on when the value of \<^verbatim>\<open>PUBLISH\<close> is
  exactly \<^verbatim>\<open>true\<close> and leaves it as it was for every other value: the result is on
  iff it was on before or the value is \<^verbatim>\<open>true\<close>.
\<close>

theorem PUBLISH_override:
  "Publish (loadEnvOverrides env cfg) =
     (Publish cfg \<or> Getenv env (EnvPrefix cfg @ ''PUBLISH'') = ''true'')"
  by (simp add: loadEnvOverrides_withEnv withEnv_def)

text \<open>
  C8. \<^verbatim>\<open>Start\<close>: when \<^verbatim>\<open>Connect\<close> fails, the result is a bus error and the client
  is unchanged but for the bus after \<^verbatim>\<open>Connect\<close> (no subscription, no goroutine);
  when \<^verbatim>\<open>Subscribe\<close> fails, the result is a bus error and no goroutine is started;
  when both succeed, the result is ok and the goroutines started are the dispatch
  loop, the publish loop iff \<^verbatim>\<open>publish\<close> is on, and the signal watcher.
\<close>

theorem Start_error_propagation:
  "(bus_Connect ext (messageBus c) = (Some err, b) \<longrightarrow>
      Start ext c = (Some (ConnectFailed err), c\<lparr>messageBus := b\<rparr>)
      \<and> kind_of (ConnectFailed err) = BusError)
   \<and> (bus_Connect ext (messageBus c) = (None, b) \<longrightarrow>
      bus_Subscribe ext [\<lparr>SubscribedTopic = Topic (config c), Messages = Messages_chan\<rparr>]
         MessageErrs_chan b = (Some err, b') \<longrightarrow>
      fst (Start ext c) = Some (SubscribeFailed err)
      \<and> kind_of (SubscribeFailed err) = BusError
      \<and> messageBus (snd (Start ext c)) = b'
      \<and> goroutines (runtime (snd (Start ext c))) = goroutines (runtime c)
      \<and> wg (snd (Start ext c)) = wg c)
   \<and> (bus_Connect ext (messageBus c) = (None, b) \<longrightarrow>
      bus_Subscribe ext [\<lparr>SubscribedTopic = Topic (config c), Messages = Messages_chan\<rparr>]
         MessageErrs_chan b = (None, b') \<longrightarrow>
      fst (Start ext c) = None
      \<and> messageBus (snd (Start ext c)) = b'
      \<and> goroutines (runtime (snd (Start ext c))) =
          goroutines (runtime c) @ [HandleMessages]
            @ (if Publish (config c) then [StartPublishing] else []) @ [HandleSignals]
      \<and> wg (snd (Start ext c)) = wg c + (if Publish (config c) then 2 else 1))"
  by (simp add: Start_def Info_def go_def Let_def)

text \<open>
  C8 on a bus that refuses the connection, one that refuses the subscription,
  and one that accepts both.
\<close>

theorem Start_error_propagation_witness:
  "Start refusing_ext created_client =
      (Some (ConnectFailed ''connection refused''), created_client\<lparr>messageBus := [Connect_call]\<rparr>)
   \<and> fst (Start unsubscribable_ext created_client) = Some (SubscribeFailed ''not authorized'')
   \<and> goroutines (runtime (snd (Start unsubscribable_ext created_client))) = []
   \<and> fst (Start fake_ext created_client) = None
   \<and> goroutines (runtime (snd (Start fake_ext created_client))) = [HandleMessages, HandleSignals]"
proof -
  let ?topics = "[\<lparr>SubscribedTopic = ''edgex/events/#'', Messages = Messages_chan\<rparr>]"
  have t: "Topic (config created_client) = ''edgex/events/#''"
    and p: "\<not> Publish (config created_client)"
    and g: "goroutines (runtime created_client) = []"
    and m: "messageBus created_client = []"
    by (simp_all add: created_client_def default_Config_def)
  have c1: "bus_Connect refusing_ext (messageBus created_client)
              = (Some ''connection refused'', [Connect_call])"
    by (simp add: refusing_ext_def fake_ext_def m)
  have c2: "bus_Connect unsubscribable_ext (messageBus created_client) = (None, [Connect_call])"
    and s2: "bus_Subscribe unsubscribable_ext
               [\<lparr>SubscribedTopic = Topic (config created_client), Messages = Messages_chan\<rparr>]
               MessageErrs_chan [Connect_call]
             = (Some ''not authorized'', [Connect_call, Subscribe_call ?topics MessageErrs_chan])"
    by (simp_all add: unsubscribable_ext_def fake_ext_def m t)
  have c3: "bus_Connect fake_ext (messageBus created_client) = (None, [Connect_call])"
    and s3: "bus_Subscribe fake_ext
               [\<lparr>SubscribedTopic = Topic (config created_client), Messages = Messages_chan\<rparr>]
               MessageErrs_chan [Connect_call]
             = (None, [Connect_call, Subscribe_call ?topics MessageErrs_chan])"
    by (simp_all add: fake_ext_def m t)
  show ?thesis
    using Start_error_propagation [of refusing_ext created_client "''connection refused''"
            "[Connect_call]"]
          Start_error_propagation [of unsubscribable_ext created_client "''not authorized''"
            "[Connect_call]" "[Connect_call, Subscribe_call ?topics MessageErrs_chan]"]
          Start_error_propagation [of fake_ext created_client _ "[Connect_call]"
            "[Connect_call, Subscribe_call ?topics MessageErrs_chan]"]
          c1 c2 s2 c3 s3 p g
    by simp
qed

text \<open>
  C9. \<^verbatim>\<open>PublishTestEvent\<close>: the event has the next UUID as its id, the three test
  names, and one reading with the UUID after that, the same device and profile
  names, \<^verbatim>\<open>TestResource\<close>, \<^verbatim>\<open>String\<close> and a value made of \<^verbatim>\<open>Test value at\<close> and the
  formatted time. A failure to encode it is a serialize error and nothing reaches
  the bus; otherwise its payload is published in an envelope with the third UUID
  and content type \<^verbatim>\<open>application/json\<close>, a failure of which is a bus error, and
  success is ok with one info line.
\<close>

theorem PublishTestEvent_postcondition:
  assumes "PublishTestEvent ext topic c = (r, c')"
    and "n = uuids_drawn (runtime c)"
    and "k = clock_reads (runtime c)"
  shows "\<exists>event reading.
           EventId event = uuid_New ext n
         \<and> DeviceName event = ''TestDevice''
         \<and> ProfileName event = ''TestProfile''
         \<and> SourceName event = ''TestSource''
         \<and> Origin event = time_Now ext k
         \<and> Readings event = [reading]
         \<and> ReadingId reading = uuid_New ext (n + 1)
         \<and> ReadingDeviceName reading = DeviceName event
         \<and> ReadingProfileName reading = ProfileName event
         \<and> ResourceName reading = ''TestResource''
         \<and> ValueType reading = ''String''
         \<and> Value (SimpleReading reading) =
               ''Test value at '' @ Format_RFC3339 ext (time_Now ext (k + 2))
         \<and> (case json_Marshal ext event of
               Inl err \<Rightarrow>
                 r = Some (SerializeFailed err) \<and> kind_of (SerializeFailed err) = SerializeError
                 \<and> messageBus c' = messageBus c
             | Inr payload \<Rightarrow>
                 (case bus_Publish ext
                         \<lparr>CorrelationID = uuid_New ext (n + 2), Payload = payload,
                          ContentType = ''application/json'', ReceivedTopic = []\<rparr>
                         topic (messageBus c) of
                    (Some err, b) \<Rightarrow>
                      r = Some (PublishFailed err) \<and> kind_of (PublishFailed err) = BusError
                      \<and> messageBus c' = b
                  | (None, b) \<Rightarrow>
                      r = None \<and> messageBus c' = b
                      \<and> logger c' = logger c @ [(INFO, PublishedTestEvent topic (EventId event))]
                      \<and> uuids_drawn (runtime c') = n + 3))"
proof -
  let ?reading =
    "\<lparr>ReadingId = uuid_New ext (n + 1), ReadingDeviceName = ''TestDevice'',
      ResourceName = ''TestResource'', ReadingProfileName = ''TestProfile'',
      ReadingOrigin = time_Now ext (k + 1), ValueType = ''String'',
      SimpleReading = \<lparr>Value = ''Test value at '' @ Format_RFC3339 ext (time_Now ext (k + 2))\<rparr>\<rparr>"
  let ?event =
    "\<lparr>EventId = uuid_New ext n, DeviceName = ''TestDevice'', ProfileName = ''TestProfile'',
      SourceName = ''TestSource'', Origin = time_Now ext k, Readings = [?reading]\<rparr>"
  show ?thesis
    using assms
    by (intro exI [of _ ?event] exI [of _ ?reading])
       (auto simp: PublishTestEvent_def uuid_New_String_def Now_def Info_def Let_def
             split: sum.splits prod.splits option.splits)
qed

text \<open>
  C9 with the test double, after one UUID has been drawn.
\<close>

theorem PublishTestEvent_postcondition_witness:
  "fst (PublishTestEvent fake_ext ''edgex/events/test'' created_client) = None
   \<and> messageBus (snd (PublishTestEvent fake_ext ''edgex/events/test'' created_client)) =
       [Publish_call \<lparr>CorrelationID = ''uuuu'', Payload = ''uu'',
           ContentType = ''application/json'', ReceivedTopic = []\<rparr> ''edgex/events/test'']"
proof -
  obtain r c' where p: "PublishTestEvent fake_ext ''edgex/events/test'' created_client = (r, c')"
    by (cases "PublishTestEvent fake_ext ''edgex/events/test'' created_client")
  have n: "1 = uuids_drawn (runtime created_client)"
    and k: "0 = clock_reads (runtime created_client)"
    and m: "messageBus created_client = []"
    by (simp_all add: created_client_def)
  have v: "replicate 4 CHR ''u'' = ''uuuu''" "replicate 2 CHR ''u'' = ''uu''"
    by (simp_all add: numeral_eq_Suc)
  show ?thesis
    using PublishTestEvent_postcondition [OF p n k] p m v
    by (auto simp: fake_ext_def)
qed

text \<open>
  C10. No lifecycle precondition: \<^verbatim>\<open>PublishEvent\<close> returns an error iff the
  encoder fails or the bus refuses the envelope, \<^verbatim>\<open>PublishTestEvent\<close> returns ok iff
  its event is encoded and the bus accepts the envelope, and neither result
  depends on whether the stop channel is closed, on the wait group, or on the
  goroutines that run.
\<close>

theorem publish_has_no_lifecycle_precondition:
  "(fst (PublishEvent ext e topic c) \<noteq> None \<longleftrightarrow>
      (case json_Marshal ext e of
         Inl err \<Rightarrow> True
       | Inr payload \<Rightarrow>
           fst (bus_Publish ext
                  \<lparr>CorrelationID = uuid_New ext (uuids_drawn (runtime c)), Payload = payload,
                   ContentType = ''application/json'', ReceivedTopic = []\<rparr>
                  topic (messageBus c)) \<noteq> None))
   \<and> fst (PublishEvent ext e topic
            (c\<lparr>stopCh_closed := s, wg := w,
               runtime := (runtime c)\<lparr>goroutines := gs\<rparr>\<rparr>)) =
       fst (PublishEvent ext e topic c)
   \<and> fst (PublishTestEvent ext topic
            (c\<lparr>stopCh_closed := s, wg := w,
               runtime := (runtime c)\<lparr>goroutines := gs\<rparr>\<rparr>)) =
       fst (PublishTestEvent ext topic c)
   \<and> (fst (PublishTestEvent ext topic c) = None \<longleftrightarrow>
        (\<exists>payload b.
           json_Marshal ext
             \<lparr>EventId = uuid_New ext (uuids_drawn (runtime c)), DeviceName = ''TestDevice'',
              ProfileName = ''TestProfile'', SourceName = ''TestSource'',
              Origin = time_Now ext (clock_reads (runtime c)),
              Readings =
                [\<lparr>ReadingId = uuid_New ext (uuids_drawn (runtime c) + 1),
                  ReadingDeviceName = ''TestDevice'', ResourceName = ''TestResource'',
                  ReadingProfileName = ''TestProfile'',
                  ReadingOrigin = time_Now ext (clock_reads (runtime c) + 1),
                  ValueType = ''String'',
                  SimpleReading =
                    \<lparr>Value = ''Test value at '' @
                       Format_RFC3339 ext (time_Now ext (clock_reads (runtime c) + 2))\<rparr>\<rparr>]\<rparr>
             = Inr payload
           \<and> bus_Publish ext
                \<lparr>CorrelationID = uuid_New ext (uuids_drawn (runtime c) + 2),
                 Payload = payload, ContentType = ''application/json'', ReceivedTopic = []\<rparr>
                topic (messageBus c) = (None, b)))"
  by (auto simp: PublishEvent_def PublishTestEvent_def uuid_New_String_def Now_def Info_def
        Let_def split: sum.splits prod.splits option.splits)

text \<open>
  C10 on a client whose stop channel is closed.
\<close>

theorem publish_has_no_lifecycle_precondition_witness:
  "fst (PublishEvent fake_ext (id_Event ''E-1'') ''edgex/events/custom''
          (created_client\<lparr>stopCh_closed := True, wg := 0,
             runtime := (runtime created_client)\<lparr>goroutines := [HandleMessages]\<rparr>\<rparr>)) = None
   \<and> fst (PublishEvent fake_ext (id_Event ''E-1'') ''edgex/events/custom'' created_client) = None"
  using publish_has_no_lifecycle_precondition
          [where ext = fake_ext and e = "id_Event ''E-1''" and topic = "''edgex/events/custom''"
             and c = created_client and s = True and w = 0 and gs = "[HandleMessages]"]
  by (simp add: fake_ext_def)

end
